theory Spec2Isabelle
  imports Main "HOL-Library.Word"
begin

section \<open>The DEFLATE64 bridge (pkg/deflate64/deflate64\_bridge.c)\<close>

text \<open>
  The bridge drives zlib's \<open>inflateBack9\<close> engine through a pull hook and a push hook
  and classifies the outcome of one engine run. The model below follows the C source
  function by function. Machine integers are words: \<open>size_t\<close> is taken as 64 bits and
  \<open>unsigned\<close> (zlib's \<open>uInt\<close>) as 32 bits, the LP64 data model; \<open>int\<close> values
  (status codes and flags) are mathematical integers, no arithmetic is done on them.
\<close>

subsection \<open>Types and constants\<close>

type_synonym byte = "8 word"
type_synonym size_t = "64 word"
type_synonym uInt = "32 word"
type_synonym addr = nat

text \<open>Status codes of zlib's public interface (zlib.h) and \<open>UINT_MAX\<close> of limits.h.\<close>

definition Z_OK :: int where "Z_OK = 0"
definition Z_STREAM_END :: int where "Z_STREAM_END = 1"
definition Z_STREAM_ERROR :: int where "Z_STREAM_ERROR = - 2"
definition Z_DATA_ERROR :: int where "Z_DATA_ERROR = - 3"
definition Z_MEM_ERROR :: int where "Z_MEM_ERROR = - 4"
definition Z_BUF_ERROR :: int where "Z_BUF_ERROR = - 5"

definition UINT_MAX :: "'a::len word" where "UINT_MAX = 4294967295"

text \<open>
  A pointer into the caller's input: \<open>In_null\<close> is \<open>Z_NULL\<close>, \<open>In_at k\<close> is
  \<open>input + k\<close>.
\<close>

datatype in_ptr = In_null | In_at nat

text \<open>The allocator hooks a stream can carry.\<close>

datatype alloc_hook = Hook_null | Hook_btidy_zalloc | Hook_btidy_zfree

text \<open>
  The fields of zlib's \<open>z_stream\<close> that the bridge or the engine interface touch.
  \<open>engine_state\<close> is the stream's internal \<open>state\<close> pointer: \<open>None\<close> (null) until
  the engine has been bound to the stream.
\<close>

record z_stream =
  next_in :: in_ptr
  avail_in :: uInt
  msg :: "string option"
  zalloc :: alloc_hook
  zfree :: alloc_hook
  opaque :: "addr option"
  engine_state :: "addr option"

text \<open>
  \<open>struct btidy_deflate64_state\<close>. The two buffer pointers are modelled by the memory
  they designate (\<open>input_buf\<close>, \<open>output_buf\<close>), a null pointer by the empty region;
  \<open>window\<close> is the address of a heap block, or \<open>None\<close> for \<open>NULL\<close>.
\<close>

record btidy_deflate64_state =
  stream :: z_stream
  window :: "addr option"
  input_buf :: "byte list"
  input_len :: size_t
  input_offset :: size_t
  output_buf :: "byte list"
  output_len :: size_t
  output_offset :: size_t
  output_overflow :: int
  initialized :: int

subsection \<open>The heap\<close>

text \<open>
  Live heap blocks with their sizes. Whether \<open>malloc\<close> succeeds, and where the block
  lies, is the allocator's choice and a parameter of the model: \<open>None\<close> is failure.
\<close>

type_synonym heap = "addr \<Rightarrow> nat option"

definition malloc :: "addr option \<Rightarrow> nat \<Rightarrow> heap \<Rightarrow> addr option \<times> heap" where
  "malloc choice n h =
     (case choice of None \<Rightarrow> (None, h) | Some a \<Rightarrow> (Some a, h(a \<mapsto> n)))"

definition free_block :: "addr \<Rightarrow> heap \<Rightarrow> heap" where
  "free_block a h = h(a := None)"

text \<open>\<open>memcpy(dst + off, src, n)\<close> on a destination region that holds \<open>off + n\<close> bytes.\<close>

definition memcpy :: "byte list \<Rightarrow> nat \<Rightarrow> byte list \<Rightarrow> nat \<Rightarrow> byte list" where
  "memcpy dst off src n = take off dst @ take n src @ drop (off + n) dst"

subsection \<open>The pull hook and the push hook\<close>

text \<open>\<open>btidy_infback9_in\<close>: returns the pointer stored in \<open>*buf\<close> and the count.\<close>

definition btidy_infback9_in ::
  "btidy_deflate64_state \<Rightarrow> (in_ptr \<times> uInt) \<times> btidy_deflate64_state" where
  "btidy_infback9_in state =
     (if input_offset state \<ge> input_len state then ((In_null, 0), state)
      else
        let buf = In_at (unat (input_offset state));
            remaining = input_len state - input_offset state;
            remaining = (if remaining > UINT_MAX then UINT_MAX else remaining)
        in ((buf, ucast remaining),
            state\<lparr>input_offset := input_offset state + remaining\<rparr>))"

text \<open>\<open>btidy_infback9_out\<close>: returns the stop indicator.\<close>

definition btidy_infback9_out ::
  "btidy_deflate64_state \<Rightarrow> byte list \<Rightarrow> uInt \<Rightarrow> int \<times> btidy_deflate64_state" where
  "btidy_infback9_out state buf len =
     (let remaining = output_len state - output_offset state;
          to_copy = (ucast len :: size_t);
          to_copy = (if to_copy > remaining then remaining else to_copy);
          state = (if to_copy > 0
                   then state\<lparr>output_buf := memcpy (output_buf state) (unat (output_offset state))
                                              buf (unat to_copy)\<rparr>
                   else state);
          state = state\<lparr>output_offset := output_offset state + to_copy\<rparr>
      in if to_copy < ucast len then (1, state\<lparr>output_overflow := 1\<rparr>) else (0, state))"

subsection \<open>The engine\<close>

text \<open>
  The engine is external to the bridge. One engine run is a strategy over the two
  hooks: it calls the pull hook and continues with what the hook returned, or calls the
  push hook with bytes it produced and continues with the hook's return value, or
  leaves with a status code and the stream as it stands at return (\<open>next_in\<close>,
  \<open>avail_in\<close>, \<open>msg\<close>). Every terminating engine is such a tree, whatever it decodes.
\<close>

datatype engine =
    Leave int z_stream
  | Call_in "in_ptr \<times> uInt \<Rightarrow> engine"
  | Call_out "byte list" uInt "int \<Rightarrow> engine"

text \<open>Running an engine against the hooks it was handed, on the descriptor \<open>state\<close>.\<close>

primrec engine_run ::
  "('s \<Rightarrow> (in_ptr \<times> uInt) \<times> 's) \<Rightarrow> ('s \<Rightarrow> byte list \<Rightarrow> uInt \<Rightarrow> int \<times> 's) \<Rightarrow>
   engine \<Rightarrow> 's \<Rightarrow> (int \<times> z_stream) \<times> 's" where
  "engine_run in_func out_func (Leave ret strm) state = ((ret, strm), state)"
| "engine_run in_func out_func (Call_in k) state =
     (case in_func state of (got, state') \<Rightarrow> engine_run in_func out_func (k got) state')"
| "engine_run in_func out_func (Call_out buf len k) state =
     (case out_func state buf len of (r, state') \<Rightarrow> engine_run in_func out_func (k r) state')"

text \<open>
  Modelled from the spec: \<open>inflateBack9\<close>, the engine run, whose code is not among the
  sources. The engine context is valid only once the handle was initialized; a run on
  a stream without one is a stream-state violation, reported without touching the hooks
  or the stream. Otherwise the run is the engine's own business: \<open>body\<close>, any strategy.
\<close>

definition inflateBack9 :: "(z_stream \<Rightarrow> engine) \<Rightarrow> z_stream \<Rightarrow> engine" where
  "inflateBack9 body strm =
     (if engine_state strm = None then Leave Z_STREAM_ERROR strm else body strm)"

text \<open>
  Modelled from the spec: \<open>inflateBack9Init\<close>, binding the engine to the window, whose
  code is not among the sources. \<open>outcome\<close> is the status the engine decides on; on
  success the engine context becomes valid, on failure the stream is left unbound.
\<close>

definition inflateBack9Init :: "int \<Rightarrow> z_stream \<Rightarrow> addr option \<Rightarrow> int \<times> z_stream" where
  "inflateBack9Init outcome strm win =
     (if outcome = Z_OK then (Z_OK, strm\<lparr>engine_state := win\<rparr>) else (outcome, strm))"

subsection \<open>Handle lifecycle\<close>

text \<open>\<open>btidy_deflate64_new\<close>: a zeroed handle, or \<open>NULL\<close> when \<open>calloc\<close> fails.\<close>

definition zeroed_state :: btidy_deflate64_state where
  "zeroed_state =
     \<lparr>stream = \<lparr>next_in = In_null, avail_in = 0, msg = None, zalloc = Hook_null,
                 zfree = Hook_null, opaque = None, engine_state = None\<rparr>,
      window = None, input_buf = [], input_len = 0, input_offset = 0,
      output_buf = [], output_len = 0, output_offset = 0,
      output_overflow = 0, initialized = 0\<rparr>"

definition btidy_deflate64_new :: "bool \<Rightarrow> btidy_deflate64_state option" where
  "btidy_deflate64_new calloc_ok = (if calloc_ok then Some zeroed_state else None)"

text \<open>
  \<open>btidy_deflate64_init\<close>. \<open>choice\<close> is what \<open>malloc\<close> answers and \<open>outcome\<close> what
  the engine answers when asked to bind. Returns the status, the heap and the handle.
\<close>

definition btidy_deflate64_init ::
  "addr option \<Rightarrow> int \<Rightarrow> heap \<Rightarrow> btidy_deflate64_state option \<Rightarrow>
   int \<times> heap \<times> btidy_deflate64_state option" where
  "btidy_deflate64_init choice outcome h state =
     (case state of
        None \<Rightarrow> (Z_STREAM_ERROR, h, None)
      | Some s \<Rightarrow>
          (case malloc choice 65536 h of
             (w, h) \<Rightarrow>
               let s = s\<lparr>window := w\<rparr> in
               (case window s of
                  None \<Rightarrow> (Z_MEM_ERROR, h, Some s)
                | Some a \<Rightarrow>
                    let s = s\<lparr>stream := (stream s)\<lparr>zalloc := Hook_btidy_zalloc,
                                                     zfree := Hook_btidy_zfree,
                                                     opaque := None\<rparr>\<rparr>
                    in (case inflateBack9Init outcome (stream s) (window s) of
                          (ret, strm) \<Rightarrow>
                            let s = s\<lparr>stream := strm\<rparr> in
                            if ret \<noteq> Z_OK
                            then (ret, free_block a h, Some (s\<lparr>window := None\<rparr>))
                            else (Z_OK, h, Some (s\<lparr>initialized := 1\<rparr>))))))"

subsection \<open>The incremental inflate driver\<close>

text \<open>
  What a call hands back: the returned status, the handle, and the five result cells.
  An out-parameter is a cell: \<open>None\<close> for a null pointer, \<open>Some v\<close> for a pointer to a
  cell holding \<open>v\<close>.
\<close>

record inflate_result =
  status :: int
  handle :: "btidy_deflate64_state option"
  input_used :: "size_t option"
  output_used :: "size_t option"
  needs_input :: "int option"
  needs_output :: "int option"
  finished :: "int option"

text \<open>Lines 157--171: the call's buffers are bound into the handle.\<close>

definition inflate_bind ::
  "btidy_deflate64_state \<Rightarrow> byte list \<Rightarrow> size_t \<Rightarrow> byte list \<Rightarrow> size_t \<Rightarrow>
   btidy_deflate64_state" where
  "inflate_bind state inp inp_len outp outp_len =
     state\<lparr>input_buf := inp, input_len := inp_len, input_offset := 0,
           output_buf := outp, output_len := outp_len, output_offset := 0,
           output_overflow := 0,
           stream := (stream state)\<lparr>next_in := In_at 0,
                                    avail_in := (if inp_len > UINT_MAX then UINT_MAX
                                                 else ucast inp_len)\<rparr>\<rparr>"

text \<open>
  Lines 173--178: one engine run on the handle's stream, with the two hooks and the
  handle as their descriptor. The engine leaves its stream in the handle.
\<close>

definition inflate_engine ::
  "(z_stream \<Rightarrow> engine) \<Rightarrow> btidy_deflate64_state \<Rightarrow> int \<times> btidy_deflate64_state" where
  "inflate_engine body state =
     (case engine_run btidy_infback9_in btidy_infback9_out
             (inflateBack9 body (stream state)) state of
        ((ret, strm), state') \<Rightarrow> (ret, state'\<lparr>stream := strm\<rparr>))"

text \<open>Lines 180--207: the counters are reported and the outcome is classified.\<close>

definition inflate_finish ::
  "int \<Rightarrow> btidy_deflate64_state \<Rightarrow> size_t \<Rightarrow> int \<Rightarrow> inflate_result" where
  "inflate_finish ret state inp_len input_eof =
     (let used = inp_len - ucast (avail_in (stream state));
          r = \<lparr>status = ret, handle = Some state,
               input_used = Some used, output_used = Some (output_offset state),
               needs_input = Some 0, needs_output = Some 0, finished = Some 0\<rparr>
      in if ret = Z_STREAM_END then r\<lparr>status := Z_OK, finished := Some 1\<rparr>
         else if ret = Z_BUF_ERROR then
           (if output_overflow state \<noteq> 0 then r\<lparr>status := Z_OK, needs_output := Some 1\<rparr>
            else if used = inp_len then
              (if input_eof \<noteq> 0 then r\<lparr>status := Z_DATA_ERROR, needs_input := Some 1\<rparr>
               else r\<lparr>status := Z_OK, needs_input := Some 1\<rparr>)
            else r)
         else r)"

text \<open>
  \<open>btidy_deflate64_inflate\<close>. \<open>body\<close> is the engine; the last five arguments are the
  out-parameters as the caller passes them.
\<close>

definition btidy_deflate64_inflate ::
  "(z_stream \<Rightarrow> engine) \<Rightarrow> btidy_deflate64_state option \<Rightarrow> byte list \<Rightarrow> size_t \<Rightarrow> int \<Rightarrow>
   byte list \<Rightarrow> size_t \<Rightarrow> size_t option \<Rightarrow> size_t option \<Rightarrow> int option \<Rightarrow> int option \<Rightarrow>
   int option \<Rightarrow> inflate_result" where
  "btidy_deflate64_inflate body state inp inp_len input_eof outp outp_len
       p_input_used p_output_used p_needs_input p_needs_output p_finished =
     (case state of
        Some s \<Rightarrow>
          if p_input_used = None \<or> p_output_used = None \<or> p_needs_input = None \<or>
             p_needs_output = None \<or> p_finished = None
          then \<lparr>status = Z_STREAM_ERROR, handle = state,
                input_used = p_input_used, output_used = p_output_used,
                needs_input = p_needs_input, needs_output = p_needs_output,
                finished = p_finished\<rparr>
          else (case inflate_engine body (inflate_bind s inp inp_len outp outp_len) of
                  (ret, s') \<Rightarrow> inflate_finish ret s' inp_len input_eof)
      | None \<Rightarrow> \<lparr>status = Z_STREAM_ERROR, handle = state,
                 input_used = p_input_used, output_used = p_output_used,
                 needs_input = p_needs_input, needs_output = p_needs_output,
                 finished = p_finished\<rparr>)"

subsection \<open>The error resolver\<close>

text \<open>The \<open>switch\<close> of \<open>btidy_deflate64_error_message\<close>.\<close>

definition error_message_switch :: "int \<Rightarrow> string" where
  "error_message_switch code =
     (if code = Z_DATA_ERROR then ''invalid deflate64 stream''
      else if code = Z_MEM_ERROR then ''insufficient memory''
      else if code = Z_STREAM_ERROR then ''invalid stream state''
      else if code = Z_BUF_ERROR then ''insufficient input or output buffer''
      else ''unknown deflate64 error'')"

text \<open>
  \<open>btidy_deflate64_error_message\<close>: the returned pointer, \<open>None\<close> for a null
  pointer, \<open>Some s\<close> for a pointer to the text \<open>s\<close>.
\<close>

definition btidy_deflate64_error_message ::
  "btidy_deflate64_state option \<Rightarrow> int \<Rightarrow> string option" where
  "btidy_deflate64_error_message state code =
     (case state of
        None \<Rightarrow> Some (error_message_switch code)
      | Some s \<Rightarrow>
          (if msg (stream s) \<noteq> None then msg (stream s)
           else Some (error_message_switch code)))"

subsection \<open>Observing an engine run\<close>


text \<open>
  The values the push hook returned to the engine during a run, in order: a non-zero
  entry is a push of this run that did not fit.
\<close>

primrec push_results ::
  "('s \<Rightarrow> (in_ptr \<times> uInt) \<times> 's) \<Rightarrow> ('s \<Rightarrow> byte list \<Rightarrow> uInt \<Rightarrow> int \<times> 's) \<Rightarrow>
   engine \<Rightarrow> 's \<Rightarrow> int list" where
  "push_results in_func out_func (Leave ret strm) state = []"
| "push_results in_func out_func (Call_in k) state =
     (case in_func state of (got, state') \<Rightarrow> push_results in_func out_func (k got) state')"
| "push_results in_func out_func (Call_out buf len k) state =
     (case out_func state buf len of
        (r, state') \<Rightarrow> r # push_results in_func out_func (k r) state')"

text \<open>The output cursor lies within the output length.\<close>

definition bounded_out :: "btidy_deflate64_state \<Rightarrow> bool" where
  "bounded_out s \<longleftrightarrow> unat (output_offset s) \<le> unat (output_len s)"


subsection \<open>Example handles and engines\<close>

text \<open>A handle as \<open>btidy_deflate64_init\<close> leaves it on success, the window at address 0.\<close>

definition ready_state :: btidy_deflate64_state where
  "ready_state =
     zeroed_state\<lparr>stream := (stream zeroed_state)\<lparr>zalloc := Hook_btidy_zalloc,
                                                    zfree := Hook_btidy_zfree,
                                                    engine_state := Some 0\<rparr>,
                  window := Some 0, initialized := 1\<rparr>"

text \<open>
  An engine that decodes all the input it holds into \<open>produced\<close>, hands that to the
  push hook, and is then at the end of the stream unless the hook said stop.
\<close>

definition engine_emit :: "byte list \<Rightarrow> z_stream \<Rightarrow> engine" where
  "engine_emit produced strm =
     Call_out produced (of_nat (length produced))
       (\<lambda>r. Leave (if r \<noteq> 0 then Z_BUF_ERROR else Z_STREAM_END) (strm\<lparr>avail_in := 0\<rparr>))"

text \<open>An engine that wants more input than two calls of the pull hook give it.\<close>

definition engine_starve :: "z_stream \<Rightarrow> engine" where
  "engine_starve strm =
     Call_in (\<lambda>got. Call_in (\<lambda>got'.
       Leave Z_BUF_ERROR (strm\<lparr>next_in := In_null, avail_in := 0\<rparr>)))"

text \<open>
  An engine that hands two decoded bytes to the push hook and then wants more input
  than two calls of the pull hook give it, unless the push hook said stop.
\<close>

definition engine_push_starve :: "z_stream \<Rightarrow> engine" where
  "engine_push_starve strm =
     Call_out [1, 2] 2
       (\<lambda>r. if r \<noteq> 0 then Leave Z_BUF_ERROR (strm\<lparr>avail_in := 0\<rparr>)
            else Call_in (\<lambda>got. Call_in (\<lambda>got'.
                   Leave Z_BUF_ERROR (strm\<lparr>next_in := In_null, avail_in := 0\<rparr>))))"

text \<open>An engine that leaves at once with a status, a text and \<open>left\<close> bytes unconsumed.\<close>

definition engine_leave :: "int \<Rightarrow> string option \<Rightarrow> uInt \<Rightarrow> z_stream \<Rightarrow> engine" where
  "engine_leave code text left strm = Leave code (strm\<lparr>msg := text, avail_in := left\<rparr>)"

text \<open>
  An engine at work on a final stored block of three bytes of which the input holds
  the header and the first byte (\<open>01 03 00 FC FF 41\<close>): it reads the six bytes it was
  handed through \<open>next_in\<close> and \<open>avail_in\<close>, calls the pull hook for more, takes the
  two bytes still missing from what the hook hands over, and delivers the block.
\<close>

definition engine_stored_block :: "z_stream \<Rightarrow> engine" where
  "engine_stored_block strm =
     Call_in (\<lambda>got.
       if snd got = 0 then Leave Z_BUF_ERROR (strm\<lparr>next_in := In_null, avail_in := 0\<rparr>)
       else Call_out [0x41, 0x01, 0x03] 3
              (\<lambda>r. Leave (if r \<noteq> 0 then Z_BUF_ERROR else Z_STREAM_END)
                     (strm\<lparr>next_in := In_at 2, avail_in := snd got - 2\<rparr>)))"

text \<open>An input of 4 GiB, one byte more than \<open>UINT_MAX\<close>.\<close>

definition big_input :: "byte list" where
  "big_input = replicate 4294967296 0"

lemmas zlib_codes =
  Z_OK_def Z_STREAM_END_def Z_STREAM_ERROR_def Z_DATA_ERROR_def Z_MEM_ERROR_def Z_BUF_ERROR_def

section \<open>Word arithmetic of the cursors\<close>

lemma unat_uInt_bound: "unat (x :: uInt) \<le> 4294967295"
  using unsigned_less [of x, where 'a = nat] by simp

lemma unat_size_t_bound: "unat (x :: size_t) < 2 ^ 64"
  using unsigned_less [of x, where 'a = nat] by simp

lemma unat_ucast_uInt_size_t: "unat (ucast (x :: uInt) :: size_t) = unat x"
proof -
  have "unat x < 2 ^ 64"
    using unat_uInt_bound [of x] by simp
  then show ?thesis
    by (simp add: unsigned_ucast_eq take_bit_nat_eq_self_iff)
qed

lemma unat_ucast_size_t_uInt:
  "unat (y :: size_t) \<le> 4294967295 \<Longrightarrow> unat (ucast y :: uInt) = unat y"
  by (simp add: unsigned_ucast_eq take_bit_nat_eq_self_iff)

lemma unat_UINT_MAX_size_t: "unat (UINT_MAX :: size_t) = 4294967295"
  by (simp add: UINT_MAX_def)

lemma unat_UINT_MAX_uInt: "unat (UINT_MAX :: uInt) = 4294967295"
  by (simp add: UINT_MAX_def)

section \<open>The hooks in terms of natural numbers\<close>

lemma in_exhausted:
  "unat (input_len state) \<le> unat (input_offset state) \<Longrightarrow>
   btidy_infback9_in state = ((In_null, 0), state)"
  by (simp add: btidy_infback9_in_def word_le_nat_alt)

lemma in_slice:
  assumes "unat (input_offset state) < unat (input_len state)"
  defines "n \<equiv> min (unat (input_len state) - unat (input_offset state)) 4294967295"
  shows "fst (fst (btidy_infback9_in state)) = In_at (unat (input_offset state))"
    and "unat (snd (fst (btidy_infback9_in state))) = n"
    and "unat (input_offset (snd (btidy_infback9_in state))) = unat (input_offset state) + n"
    and "snd (btidy_infback9_in state) =
           state\<lparr>input_offset := input_offset (snd (btidy_infback9_in state))\<rparr>"
proof -
  let ?c = "input_offset state" and ?L = "input_len state"
  have lt: "?c < ?L" using assms(1) by (simp add: word_less_nat_alt)
  then have nle: "\<not> ?L \<le> ?c" by simp
  have sub: "unat (?L - ?c) = unat ?L - unat ?c"
    using lt by (simp add: unat_sub)
  define r where "r = (if ?L - ?c > UINT_MAX then UINT_MAX else ?L - ?c)"
  have r: "unat r = n"
    by (simp add: r_def n_def word_less_nat_alt unat_UINT_MAX_size_t sub min_def)
  have res: "btidy_infback9_in state =
      ((In_at (unat ?c), ucast r), state\<lparr>input_offset := ?c + r\<rparr>)"
    using nle by (simp add: btidy_infback9_in_def Let_def r_def)
  show "fst (fst (btidy_infback9_in state)) = In_at (unat ?c)"
    by (simp add: res)
  have "n \<le> 4294967295" by (simp add: n_def)
  then show "unat (snd (fst (btidy_infback9_in state))) = n"
    by (simp add: res unat_ucast_size_t_uInt r)
  have "unat ?c + unat r \<le> unat ?L"
    using assms(1) by (simp add: r n_def)
  then have "unat (?c + r) = unat ?c + unat r"
    using unat_size_t_bound [of ?L] by (simp add: unat_add_lem [THEN iffD1])
  then show "unat (input_offset (snd (btidy_infback9_in state))) = unat ?c + n"
    by (simp add: res r)
  show "snd (btidy_infback9_in state) =
           state\<lparr>input_offset := input_offset (snd (btidy_infback9_in state))\<rparr>"
    by (simp add: res)
qed

lemma memcpy_zero: "memcpy dst off src 0 = dst"
  by (simp add: memcpy_def)

lemma length_memcpy:
  "off + n \<le> length dst \<Longrightarrow> n \<le> length src \<Longrightarrow> length (memcpy dst off src n) = length dst"
  by (simp add: memcpy_def)

lemma nth_memcpy_copied:
  "off + n \<le> length dst \<Longrightarrow> n \<le> length src \<Longrightarrow> i < n \<Longrightarrow>
   memcpy dst off src n ! (off + i) = src ! i"
  by (simp add: memcpy_def nth_append)

lemma nth_memcpy_before:
  "off + n \<le> length dst \<Longrightarrow> j < off \<Longrightarrow> memcpy dst off src n ! j = dst ! j"
  by (simp add: memcpy_def nth_append)

lemma nth_memcpy_after:
  "off + n \<le> length dst \<Longrightarrow> n \<le> length src \<Longrightarrow> off + n \<le> j \<Longrightarrow> j < length dst \<Longrightarrow>
   memcpy dst off src n ! j = dst ! j"
  by (auto simp: memcpy_def nth_append min_def)

lemma out_result:
  fixes state :: btidy_deflate64_state and buf :: "byte list" and len :: uInt
  assumes le: "unat (output_offset state) \<le> unat (output_len state)"
  defines "c \<equiv> unat (output_offset state)"
  defines "k \<equiv> min (unat len) (unat (output_len state) - unat (output_offset state))"
  shows "fst (btidy_infback9_out state buf len) = (if k < unat len then 1 else 0)"
    and "output_buf (snd (btidy_infback9_out state buf len)) = memcpy (output_buf state) c buf k"
    and "unat (output_offset (snd (btidy_infback9_out state buf len))) = c + k"
    and "output_overflow (snd (btidy_infback9_out state buf len)) =
           (if k < unat len then 1 else output_overflow state)"
    and "snd (btidy_infback9_out state buf len) =
           state\<lparr>output_buf := output_buf (snd (btidy_infback9_out state buf len)),
                 output_offset := output_offset (snd (btidy_infback9_out state buf len)),
                 output_overflow := output_overflow (snd (btidy_infback9_out state buf len))\<rparr>"
proof -
  let ?c = "output_offset state" and ?L = "output_len state"
  let ?res = "btidy_infback9_out state buf len"
  have cL: "?c \<le> ?L" using le by (simp add: word_le_nat_alt)
  have sub: "unat (?L - ?c) = unat ?L - unat ?c"
    using cL by (simp add: unat_sub)
  define t where "t = (if (ucast len :: size_t) > ?L - ?c then ?L - ?c else ucast len)"
  have t: "unat t = k"
    by (simp add: t_def k_def word_less_nat_alt sub unat_ucast_uInt_size_t min_def)
  have lt: "t < ucast len \<longleftrightarrow> k < unat len"
    by (simp add: word_less_nat_alt t unat_ucast_uInt_size_t)
  have pos: "0 < t \<longleftrightarrow> 0 < k"
    by (simp add: word_less_nat_alt t)
  have "unat ?c + unat t \<le> unat ?L"
    using le by (simp add: t k_def)
  then have add: "unat (?c + t) = c + k"
    using unat_size_t_bound [of ?L] by (simp add: unat_add_lem [THEN iffD1] t c_def)
  have res: "?res =
      (let state' = (if 0 < k then state\<lparr>output_buf := memcpy (output_buf state) c buf k\<rparr>
                     else state);
           state' = state'\<lparr>output_offset := ?c + t\<rparr>
       in if k < unat len then (1, state'\<lparr>output_overflow := 1\<rparr>) else (0, state'))"
    unfolding btidy_infback9_out_def Let_def t_def [symmetric] lt pos t c_def by (simp add: t)
  show "fst ?res = (if k < unat len then 1 else 0)"
    by (simp add: res Let_def)
  show "output_buf (snd ?res) = memcpy (output_buf state) c buf k"
    by (simp add: res Let_def memcpy_zero)
  show "unat (output_offset (snd ?res)) = c + k"
    by (simp add: res Let_def add)
  show "output_overflow (snd ?res) = (if k < unat len then 1 else output_overflow state)"
    by (simp add: res Let_def)
  show "snd ?res = state\<lparr>output_buf := output_buf (snd ?res),
                 output_offset := output_offset (snd ?res),
                 output_overflow := output_overflow (snd ?res)\<rparr>"
    by (simp add: res Let_def)
qed

section \<open>The pull hook\<close>

text \<open>
  Claim C5. With input cursor \<open>c\<close> and input length \<open>L\<close>: if \<open>c \<ge> L\<close> the pull hook
  returns the null pointer and the count 0 and leaves the handle as it is. Otherwise it
  returns the pointer \<open>input + c\<close> and the count \<open>min (L - c) UINT_MAX\<close>, advances the
  cursor by exactly that count and changes nothing else; the slice handed out ends at
  or before \<open>L\<close>.
\<close>

theorem pull_hook_slice:
  "(unat (input_len state) \<le> unat (input_offset state) \<longrightarrow>
      btidy_infback9_in state = ((In_null, 0), state)) \<and>
   (unat (input_offset state) < unat (input_len state) \<longrightarrow>
      (let c = unat (input_offset state); L = unat (input_len state);
           n = min (L - c) 4294967295;
           res = btidy_infback9_in state
       in fst (fst res) = In_at c \<and>
          unat (snd (fst res)) = n \<and>
          unat (input_offset (snd res)) = c + n \<and>
          c + unat (snd (fst res)) \<le> L \<and>
          snd res = state\<lparr>input_offset := input_offset (snd res)\<rparr>))"
proof (intro conjI impI)
  assume "unat (input_len state) \<le> unat (input_offset state)"
  then show "btidy_infback9_in state = ((In_null, 0), state)"
    by (rule in_exhausted)
next
  assume lt: "unat (input_offset state) < unat (input_len state)"
  show "let c = unat (input_offset state); L = unat (input_len state);
           n = min (L - c) 4294967295;
           res = btidy_infback9_in state
       in fst (fst res) = In_at c \<and>
          unat (snd (fst res)) = n \<and>
          unat (input_offset (snd res)) = c + n \<and>
          c + unat (snd (fst res)) \<le> L \<and>
          snd res = state\<lparr>input_offset := input_offset (snd res)\<rparr>"
    unfolding Let_def
  proof (intro conjI)
    show "fst (fst (btidy_infback9_in state)) = In_at (unat (input_offset state))"
      by (rule in_slice(1) [OF lt])
    show "unat (snd (fst (btidy_infback9_in state))) =
            min (unat (input_len state) - unat (input_offset state)) 4294967295"
      by (rule in_slice(2) [OF lt])
    show "unat (input_offset (snd (btidy_infback9_in state))) =
            unat (input_offset state) +
            min (unat (input_len state) - unat (input_offset state)) 4294967295"
      by (rule in_slice(3) [OF lt])
    show "unat (input_offset state) + unat (snd (fst (btidy_infback9_in state)))
            \<le> unat (input_len state)"
      using lt by (simp add: in_slice(2) [OF lt])
    show "snd (btidy_infback9_in state) =
            state\<lparr>input_offset := input_offset (snd (btidy_infback9_in state))\<rparr>"
      by (rule in_slice(4) [OF lt])
  qed
qed

theorem pull_hook_slice_witness:
  "(let s = zeroed_state\<lparr>input_len := 5, input_offset := 2\<rparr>
    in unat (input_offset s) < unat (input_len s) \<and>
       btidy_infback9_in s = ((In_at 2, 3), s\<lparr>input_offset := 5\<rparr>)) \<and>
   (let s = zeroed_state\<lparr>input_len := 5, input_offset := 5\<rparr>
    in unat (input_len s) \<le> unat (input_offset s) \<and>
       btidy_infback9_in s = ((In_null, 0), s)) \<and>
   (let s = zeroed_state\<lparr>input_len := 8589934592\<rparr>
    in unat (input_offset s) < unat (input_len s) \<and>
       btidy_infback9_in s = ((In_at 0, 4294967295), s\<lparr>input_offset := 4294967295\<rparr>))"
  using pull_hook_slice [of "zeroed_state\<lparr>input_len := 5, input_offset := 2\<rparr>"]
    pull_hook_slice [of "zeroed_state\<lparr>input_len := 5, input_offset := 5\<rparr>"]
    pull_hook_slice [of "zeroed_state\<lparr>input_len := 8589934592\<rparr>"]
  by (simp add: zeroed_state_def btidy_infback9_in_def UINT_MAX_def)

section \<open>The push hook\<close>

text \<open>
  Claim C4. The push hook is offered \<open>len\<close> bytes while the output cursor is \<open>c\<close> and
  the output length is \<open>L\<close>, with \<open>c \<le> L\<close>; the output region holds \<open>L\<close> bytes and
  the engine's buffer \<open>len\<close>. With \<open>k = min len (L - c)\<close>, the hook copies exactly the
  first \<open>k\<close> offered bytes into the output at offset \<open>c\<close> and leaves the rest of the
  output as it was, advances the cursor to \<open>c + k\<close>, and returns non-zero exactly when
  \<open>k < len\<close>, in which case it sets the overflow flag; otherwise the flag keeps its
  value. The state returned with the stop indicator already holds the copied bytes.
  No other field changes.
\<close>

theorem push_hook_copies_what_fits:
  fixes state :: btidy_deflate64_state and buf :: "byte list" and len :: uInt
  assumes "unat (output_offset state) \<le> unat (output_len state)"
      and "unat (output_len state) \<le> length (output_buf state)"
      and "unat len \<le> length buf"
  shows "let c = unat (output_offset state); L = unat (output_len state);
             k = min (unat len) (L - c);
             res = btidy_infback9_out state buf len; state' = snd res
         in output_buf state' =
              take c (output_buf state) @ take k buf @ drop (c + k) (output_buf state) \<and>
            length (take k buf) = k \<and>
            length (output_buf state') = length (output_buf state) \<and>
            (\<forall>i<k. output_buf state' ! (c + i) = buf ! i) \<and>
            (\<forall>j<length (output_buf state).
               j < c \<or> c + k \<le> j \<longrightarrow> output_buf state' ! j = output_buf state ! j) \<and>
            unat (output_offset state') = c + k \<and>
            (fst res \<noteq> 0 \<longleftrightarrow> k < unat len) \<and>
            output_overflow state' = (if k < unat len then 1 else output_overflow state) \<and>
            state' = state\<lparr>output_buf := output_buf state',
                           output_offset := output_offset state',
                           output_overflow := output_overflow state'\<rparr>"
proof -
  define c where "c = unat (output_offset state)"
  define k where "k = min (unat len) (unat (output_len state) - unat (output_offset state))"
  define state' where "state' = snd (btidy_infback9_out state buf len)"
  note r = out_result [OF assms(1), of buf len, folded c_def k_def state'_def]
  have fit: "c + k \<le> length (output_buf state)"
    using assms(1,2) by (simp add: c_def k_def)
  have src: "k \<le> length buf"
    using assms(3) by (simp add: k_def)
  have 1: "output_buf state' =
      take c (output_buf state) @ take k buf @ drop (c + k) (output_buf state)"
    by (simp add: r(2) memcpy_def)
  have 2: "length (take k buf) = k"
    using src by simp
  have 3: "length (output_buf state') = length (output_buf state)"
    using fit src by (simp add: r(2) length_memcpy)
  have 4: "\<forall>i<k. output_buf state' ! (c + i) = buf ! i"
    using fit src by (simp add: r(2) nth_memcpy_copied)
  have 5: "\<forall>j<length (output_buf state).
      j < c \<or> c + k \<le> j \<longrightarrow> output_buf state' ! j = output_buf state ! j"
    using fit src by (auto simp: r(2) nth_memcpy_before nth_memcpy_after)
  have 7: "fst (btidy_infback9_out state buf len) \<noteq> 0 \<longleftrightarrow> k < unat len"
    by (simp add: r(1))
  show ?thesis
    unfolding Let_def
    using 1 2 3 4 5 7 r(3) r(4) r(5)
    unfolding c_def k_def state'_def
    by (intro conjI)
qed

theorem push_hook_copies_what_fits_witness:
  "(let s = (inflate_bind ready_state [] 0 [9, 9, 9, 9] 4)\<lparr>output_offset := 1\<rparr>
    in unat (output_offset s) \<le> unat (output_len s) \<and>
       unat (output_len s) \<le> length (output_buf s) \<and>
       unat (5 :: uInt) \<le> length [1, 2, 3, 4, 5 :: byte] \<and>
       unat (2 :: uInt) \<le> length [1, 2 :: byte] \<and>
       btidy_infback9_out s [1, 2, 3, 4, 5] 5 =
         (1, s\<lparr>output_buf := [9, 1, 2, 3], output_offset := 4, output_overflow := 1\<rparr>) \<and>
       btidy_infback9_out s [1, 2] 2 =
         (0, s\<lparr>output_buf := [9, 1, 2, 9], output_offset := 3\<rparr>))"
  using push_hook_copies_what_fits
      [of "(inflate_bind ready_state [] 0 [9, 9, 9, 9] 4)\<lparr>output_offset := 1\<rparr>"
          5 "[1, 2, 3, 4, 5]"]
    push_hook_copies_what_fits
      [of "(inflate_bind ready_state [] 0 [9, 9, 9, 9] 4)\<lparr>output_offset := 1\<rparr>"
          2 "[1, 2]"]
  by (simp add: inflate_bind_def ready_state_def zeroed_state_def btidy_infback9_out_def
        memcpy_def Let_def)

section \<open>Invariants of an engine run\<close>

lemma in_keeps:
  "output_offset (snd (btidy_infback9_in s)) = output_offset s"
  "output_len (snd (btidy_infback9_in s)) = output_len s"
  "input_len (snd (btidy_infback9_in s)) = input_len s"
  "output_overflow (snd (btidy_infback9_in s)) = output_overflow s"
  by (simp_all add: btidy_infback9_in_def Let_def)








text \<open>
  The overflow flag after a run is set exactly when it was set before the run or a
  push of the run did not fit.
\<close>

lemma out_flag:
  "fst (btidy_infback9_out s buf len) \<noteq> 0 \<Longrightarrow>
     output_overflow (snd (btidy_infback9_out s buf len)) = 1"
  "fst (btidy_infback9_out s buf len) = 0 \<Longrightarrow>
     output_overflow (snd (btidy_infback9_out s buf len)) = output_overflow s"
  by (simp_all add: btidy_infback9_out_def Let_def split: if_splits)

lemma run_overflow_iff:
  "output_overflow (snd (engine_run btidy_infback9_in btidy_infback9_out e s)) \<noteq> 0 \<longleftrightarrow>
   output_overflow s \<noteq> 0 \<or>
   (\<exists>r \<in> set (push_results btidy_infback9_in btidy_infback9_out e s). r \<noteq> 0)"
proof (induction e arbitrary: s)
  case (Leave ret strm)
  show ?case by simp
next
  case (Call_in k)
  from Call_in.IH [OF rangeI, of "fst (btidy_infback9_in s)" "snd (btidy_infback9_in s)"]
  show ?case by (simp add: split_beta in_keeps)
next
  case (Call_out buf len k)
  let ?r = "fst (btidy_infback9_out s buf len)" and ?s = "snd (btidy_infback9_out s buf len)"
  note IH = Call_out.IH [OF rangeI, of ?r ?s]
  show ?case
  proof (cases "?r = 0")
    case True
    with IH show ?thesis by (simp add: split_beta out_flag(2))
  next
    case False
    with IH show ?thesis by (simp add: split_beta out_flag(1))
  qed
qed

lemma inflate_engine_overflow_iff:
  "output_overflow (snd (inflate_engine body (inflate_bind s inp inp_len outp outp_len))) \<noteq> 0
   \<longleftrightarrow>
   (\<exists>r \<in> set (push_results btidy_infback9_in btidy_infback9_out
                 (inflateBack9 body (stream (inflate_bind s inp inp_len outp outp_len)))
                 (inflate_bind s inp inp_len outp outp_len)). r \<noteq> 0)"
proof -
  have "output_overflow (inflate_bind s inp inp_len outp outp_len) = 0"
    by (simp add: inflate_bind_def)
  then show ?thesis
    by (simp add: inflate_engine_def split_beta run_overflow_iff)
qed

section \<open>The driver\<close>

lemmas run_defs =
  inflate_engine_def inflate_bind_def inflateBack9_def ready_state_def zeroed_state_def
  btidy_infback9_in_def btidy_infback9_out_def memcpy_def Let_def UINT_MAX_def zlib_codes
  engine_emit_def engine_starve_def engine_leave_def

lemma inflate_reaches_engine:
  "btidy_deflate64_inflate body (Some s) inp inp_len input_eof outp outp_len
       (Some u1) (Some u2) (Some f1) (Some f2) (Some f3) =
   inflate_finish (fst (inflate_engine body (inflate_bind s inp inp_len outp outp_len)))
     (snd (inflate_engine body (inflate_bind s inp inp_len outp outp_len))) inp_len input_eof"
  by (simp add: btidy_deflate64_inflate_def split_beta)

lemma inflate_null_argument:
  "state = None \<or> p1 = None \<or> p2 = None \<or> p3 = None \<or> p4 = None \<or> p5 = None \<Longrightarrow>
   btidy_deflate64_inflate body state inp inp_len input_eof outp outp_len p1 p2 p3 p4 p5 =
     \<lparr>status = Z_STREAM_ERROR, handle = state, input_used = p1, output_used = p2,
      needs_input = p3, needs_output = p4, finished = p5\<rparr>"
  by (auto simp: btidy_deflate64_inflate_def split: option.splits)

lemma inflate_finish_fields:
  "handle (inflate_finish ret st n input_eof) = Some st"
  "input_used (inflate_finish ret st n input_eof) = Some (n - ucast (avail_in (stream st)))"
  "output_used (inflate_finish ret st n input_eof) = Some (output_offset st)"
  by (simp_all add: inflate_finish_def Let_def)

lemma used_all_iff:
  "(inp_len :: size_t) - ucast (a :: uInt) = inp_len \<longleftrightarrow> a = 0"
proof
  assume "inp_len - ucast a = inp_len"
  then have "(ucast a :: size_t) = 0" by simp
  then have "unat (ucast a :: size_t) = 0" by simp
  then show "a = 0" by (simp add: unat_ucast_uInt_size_t unat_eq_zero)
qed simp

text \<open>
  Claim C1. Whenever the engine run of a call stops with \<open>Z_BUF_ERROR\<close> and the
  overflow flag of the call is set, the call returns \<open>Z_OK\<close> with \<open>needs_output = 1\<close>
  and \<open>needs_input = 0\<close>, whatever the engine left unconsumed: also when it consumed
  all of the supplied input in that run.
\<close>

theorem overflow_wins:
  assumes "inflate_engine body (inflate_bind s inp inp_len outp outp_len) = (Z_BUF_ERROR, s')"
      and "output_overflow s' \<noteq> 0"
  shows "let r = btidy_deflate64_inflate body (Some s) inp inp_len input_eof outp outp_len
                   (Some u1) (Some u2) (Some f1) (Some f2) (Some f3)
         in status r = Z_OK \<and> needs_output r = Some 1 \<and> needs_input r = Some 0 \<and>
            finished r = Some 0"
  using assms
  by (simp add: inflate_reaches_engine inflate_finish_def Let_def zlib_codes)

text \<open>
  The example: the engine consumes all three input bytes and offers five bytes to an
  output of four, so input runs out on the step that overflows the output.
\<close>

theorem overflow_wins_witness:
  "inflate_engine (engine_emit [1, 2, 3, 4, 5])
       (inflate_bind ready_state [7, 7, 7] 3 [0, 0, 0, 0] 4) =
     (Z_BUF_ERROR,
      (inflate_bind ready_state [7, 7, 7] 3 [0, 0, 0, 0] 4)
        \<lparr>stream := (stream ready_state)\<lparr>next_in := In_at 0, avail_in := 0\<rparr>,
         output_buf := [1, 2, 3, 4], output_offset := 4, output_overflow := 1\<rparr>) \<and>
   (let r = btidy_deflate64_inflate (engine_emit [1, 2, 3, 4, 5]) (Some ready_state)
              [7, 7, 7] 3 1 [0, 0, 0, 0] 4 (Some 0) (Some 0) (Some 0) (Some 0) (Some 0)
    in status r = Z_OK \<and> needs_output r = Some 1 \<and> needs_input r = Some 0 \<and>
       finished r = Some 0 \<and> input_used r = Some 3 \<and> output_used r = Some 4)"
proof -
  have run: "inflate_engine (engine_emit [1, 2, 3, 4, 5])
       (inflate_bind ready_state [7, 7, 7] 3 [0, 0, 0, 0] 4) =
     (Z_BUF_ERROR,
      (inflate_bind ready_state [7, 7, 7] 3 [0, 0, 0, 0] 4)
        \<lparr>stream := (stream ready_state)\<lparr>next_in := In_at 0, avail_in := 0\<rparr>,
         output_buf := [1, 2, 3, 4], output_offset := 4, output_overflow := 1\<rparr>)"
    by (simp add: run_defs)
  from overflow_wins [OF run, of 1 0 0 0 0 0] run
  show ?thesis
    by (simp add: inflate_reaches_engine inflate_finish_def inflate_bind_def ready_state_def
          zeroed_state_def UINT_MAX_def Let_def zlib_codes)
qed

text \<open>
  Claim C2. Whenever the engine run of a call stops with \<open>Z_BUF_ERROR\<close>, no push of
  that run overflowed the output (every call of the push hook in the run returned 0)
  and nothing of the supplied input is left unconsumed: with \<open>input_eof\<close> asserted the
  call returns \<open>Z_DATA_ERROR\<close>, and otherwise it returns \<open>Z_OK\<close> with \<open>needs_input = 1\<close>
  and the other two flags 0. An overflow flag left in the handle by an earlier call
  plays no part.
\<close>

theorem input_exhausted_classification:
  assumes "inflate_engine body (inflate_bind s inp inp_len outp outp_len) = (Z_BUF_ERROR, s')"
      and "\<forall>r \<in> set (push_results btidy_infback9_in btidy_infback9_out
                       (inflateBack9 body (stream (inflate_bind s inp inp_len outp outp_len)))
                       (inflate_bind s inp inp_len outp outp_len)). r = 0"
      and "avail_in (stream s') = 0"
  shows "let r = btidy_deflate64_inflate body (Some s) inp inp_len input_eof outp outp_len
                   (Some u1) (Some u2) (Some f1) (Some f2) (Some f3)
         in (input_eof \<noteq> 0 \<longrightarrow> status r = Z_DATA_ERROR) \<and>
            (input_eof = 0 \<longrightarrow>
               status r = Z_OK \<and> needs_input r = Some 1 \<and> needs_output r = Some 0 \<and>
               finished r = Some 0)"
proof -
  have "\<not> output_overflow
            (snd (inflate_engine body (inflate_bind s inp inp_len outp outp_len))) \<noteq> 0"
    unfolding inflate_engine_overflow_iff using assms(2) by blast
  then have "output_overflow s' = 0"
    by (simp add: assms(1))
  with assms(1,3) show ?thesis
    by (simp add: inflate_reaches_engine inflate_finish_def Let_def zlib_codes)
qed

text \<open>
  The example starts from a handle in which an earlier call has left the overflow flag
  set; the engine pushes two bytes that fit and then runs out of input.
\<close>

theorem input_exhausted_classification_witness:
  "output_overflow (ready_state\<lparr>output_overflow := 1\<rparr>) = 1 \<and>
   inflate_engine engine_push_starve
       (inflate_bind (ready_state\<lparr>output_overflow := 1\<rparr>) [7, 7, 7] 3 [0, 0, 0, 0] 4) =
     (Z_BUF_ERROR,
      (inflate_bind ready_state [7, 7, 7] 3 [0, 0, 0, 0] 4)
        \<lparr>stream := (stream ready_state)\<lparr>next_in := In_null, avail_in := 0\<rparr>,
         input_offset := 3, output_buf := [1, 2, 0, 0], output_offset := 2\<rparr>) \<and>
   push_results btidy_infback9_in btidy_infback9_out
       (inflateBack9 engine_push_starve
          (stream (inflate_bind (ready_state\<lparr>output_overflow := 1\<rparr>)
                     [7, 7, 7] 3 [0, 0, 0, 0] 4)))
       (inflate_bind (ready_state\<lparr>output_overflow := 1\<rparr>) [7, 7, 7] 3 [0, 0, 0, 0] 4) = [0] \<and>
   (let r = btidy_deflate64_inflate engine_push_starve
              (Some (ready_state\<lparr>output_overflow := 1\<rparr>))
              [7, 7, 7] 3 1 [0, 0, 0, 0] 4 (Some 0) (Some 0) (Some 0) (Some 0) (Some 0)
    in status r = Z_DATA_ERROR \<and> input_used r = Some 3 \<and> output_used r = Some 2) \<and>
   (let r = btidy_deflate64_inflate engine_push_starve
              (Some (ready_state\<lparr>output_overflow := 1\<rparr>))
              [7, 7, 7] 3 0 [0, 0, 0, 0] 4 (Some 0) (Some 0) (Some 0) (Some 0) (Some 0)
    in status r = Z_OK \<and> needs_input r = Some 1 \<and> needs_output r = Some 0 \<and>
       finished r = Some 0 \<and> input_used r = Some 3 \<and> output_used r = Some 2)"
proof -
  let ?s = "ready_state\<lparr>output_overflow := 1\<rparr>"
  have run: "inflate_engine engine_push_starve (inflate_bind ?s [7, 7, 7] 3 [0, 0, 0, 0] 4) =
     (Z_BUF_ERROR,
      (inflate_bind ready_state [7, 7, 7] 3 [0, 0, 0, 0] 4)
        \<lparr>stream := (stream ready_state)\<lparr>next_in := In_null, avail_in := 0\<rparr>,
         input_offset := 3, output_buf := [1, 2, 0, 0], output_offset := 2\<rparr>)"
    by (simp add: run_defs engine_push_starve_def)
  have pushes: "push_results btidy_infback9_in btidy_infback9_out
       (inflateBack9 engine_push_starve (stream (inflate_bind ?s [7, 7, 7] 3 [0, 0, 0, 0] 4)))
       (inflate_bind ?s [7, 7, 7] 3 [0, 0, 0, 0] 4) = [0]"
    by (simp add: run_defs engine_push_starve_def)
  have fit: "\<forall>r \<in> set (push_results btidy_infback9_in btidy_infback9_out
       (inflateBack9 engine_push_starve (stream (inflate_bind ?s [7, 7, 7] 3 [0, 0, 0, 0] 4)))
       (inflate_bind ?s [7, 7, 7] 3 [0, 0, 0, 0] 4)). r = 0"
    by (simp add: pushes)
  have left: "avail_in (stream ((inflate_bind ready_state [7, 7, 7] 3 [0, 0, 0, 0] 4)
        \<lparr>stream := (stream ready_state)\<lparr>next_in := In_null, avail_in := 0\<rparr>,
         input_offset := 3, output_buf := [1, 2, 0, 0], output_offset := 2\<rparr>)) = 0"
    by simp
  from input_exhausted_classification [OF run fit left, of 1 0 0 0 0 0]
    input_exhausted_classification [OF run fit left, of 0 0 0 0 0 0] run pushes
  show ?thesis
    by (simp add: inflate_reaches_engine inflate_finish_def inflate_bind_def ready_state_def
          zeroed_state_def UINT_MAX_def Let_def zlib_codes)
qed

text \<open>
  What the driver reports, for every call that reaches the engine run and whatever
  status the engine left with: \<open>input_used\<close> is \<open>input_len\<close> minus the count the
  engine left in \<open>avail_in\<close>, computed in \<open>size_t\<close> and equal to the difference of the
  two numbers whenever the engine left no more than \<open>input_len\<close>; \<open>output_used\<close> is
  the output cursor of the handle as the call leaves it.
\<close>

theorem used_counts:
  "let e = inflate_engine body (inflate_bind s inp inp_len outp outp_len);
       r = btidy_deflate64_inflate body (Some s) inp inp_len input_eof outp outp_len
             (Some u1) (Some u2) (Some f1) (Some f2) (Some f3)
   in handle r = Some (snd e) \<and>
      input_used r = Some (inp_len - ucast (avail_in (stream (snd e)))) \<and>
      output_used r = Some (output_offset (snd e)) \<and>
      (unat (avail_in (stream (snd e))) \<le> unat inp_len \<longrightarrow>
         (\<exists>u. input_used r = Some u \<and>
              unat u = unat inp_len - unat (avail_in (stream (snd e)))))"
proof -
  define e where "e = inflate_engine body (inflate_bind s inp inp_len outp outp_len)"
  have sub: "unat (inp_len - ucast (avail_in (stream (snd e)))) =
               unat inp_len - unat (avail_in (stream (snd e)))"
    if "unat (avail_in (stream (snd e))) \<le> unat inp_len"
  proof -
    have "(ucast (avail_in (stream (snd e))) :: size_t) \<le> inp_len"
      using that by (simp add: word_le_nat_alt unat_ucast_uInt_size_t)
    then show ?thesis
      by (simp add: unat_sub unat_ucast_uInt_size_t)
  qed
  show ?thesis
    unfolding Let_def e_def [symmetric]
    using sub
    by (simp add: inflate_reaches_engine e_def [symmetric] inflate_finish_fields)
qed

theorem used_counts_witness:
  "(let e = inflate_engine (engine_leave Z_STREAM_END None 1)
              (inflate_bind ready_state [7, 7, 7] 3 [0, 0, 0, 0] 4);
        r = btidy_deflate64_inflate (engine_leave Z_STREAM_END None 1) (Some ready_state)
              [7, 7, 7] 3 0 [0, 0, 0, 0] 4 (Some 0) (Some 0) (Some 0) (Some 0) (Some 0)
    in unat (avail_in (stream (snd e))) \<le> unat (3 :: size_t) \<and>
       input_used r = Some 2 \<and> output_used r = Some 0 \<and> finished r = Some 1) \<and>
   (let r = btidy_deflate64_inflate (engine_emit [1, 2]) (Some ready_state)
              [7, 7, 7] 3 0 [0, 0, 0, 0] 4 (Some 0) (Some 0) (Some 0) (Some 0) (Some 0)
    in input_used r = Some 3 \<and> output_used r = Some 2 \<and> finished r = Some 1)"
  using used_counts [where body = "engine_leave Z_STREAM_END None 1" and s = ready_state
      and inp = "[7, 7, 7]" and inp_len = 3 and input_eof = 0 and outp = "[0, 0, 0, 0]"
      and outp_len = 4 and ?u1.0 = 0 and ?u2.0 = 0 and ?f1.0 = 0 and ?f2.0 = 0 and ?f3.0 = 0]
    used_counts [where body = "engine_emit [1, 2]" and s = ready_state
      and inp = "[7, 7, 7]" and inp_len = 3 and input_eof = 0 and outp = "[0, 0, 0, 0]"
      and outp_len = 4 and ?u1.0 = 0 and ?u2.0 = 0 and ?f1.0 = 0 and ?f2.0 = 0 and ?f3.0 = 0]
  by (simp add: inflate_reaches_engine inflate_finish_def run_defs)

text \<open>
  Claim C3: at return \<open>input_used\<close> is the number of supplied input bytes the engine
  consumed during the call, and \<open>output_used\<close> the final output cursor. The second
  half is \<open>used_counts\<close> above. The first half fails on the code: the engine is handed
  \<open>min input_len UINT_MAX\<close> bytes through \<open>next_in\<close> and \<open>avail_in\<close>, the pull hook
  then hands the input over again from offset 0, and \<open>input_used\<close> is \<open>input_len\<close>
  minus what the engine left of whatever it held last. Two calls show it. In the first
  the input has 4 GiB and the engine leaves at once, handle and stream untouched, having
  consumed nothing; \<open>input_used\<close> is 1. In the second the input is the six bytes of a
  truncated stored block; the engine reads all six, is handed the same six again by the
  pull hook and takes two of them; the call reports \<open>finished\<close> and \<open>input_used = 2\<close>.
\<close>

theorem input_used_miscount:
  "(let s0 = inflate_bind zeroed_state big_input 4294967296 [] 0;
        r = btidy_deflate64_inflate engine_starve (Some zeroed_state) big_input 4294967296 0
              [] 0 (Some 0) (Some 0) (Some 0) (Some 0) (Some 0)
    in length big_input = 4294967296 \<and>
       avail_in (stream s0) = 4294967295 \<and>
       inflate_engine engine_starve s0 = (Z_STREAM_ERROR, s0) \<and>
       status r = Z_STREAM_ERROR \<and> input_used r = Some 1) \<and>
   (let inp = [0x01, 0x03, 0x00, 0xFC, 0xFF, 0x41];
        s0 = inflate_bind ready_state inp 6 [0, 0, 0, 0] 4;
        r = btidy_deflate64_inflate engine_stored_block (Some ready_state) inp 6 1
              [0, 0, 0, 0] 4 (Some 0) (Some 0) (Some 0) (Some 0) (Some 0)
    in next_in (stream s0) = In_at 0 \<and> avail_in (stream s0) = 6 \<and>
       fst (btidy_infback9_in s0) = (In_at 0, 6) \<and>
       status r = Z_OK \<and> finished r = Some 1 \<and> input_used r = Some 2 \<and>
       output_used r = Some 3)"
  by (simp add: big_input_def inflate_reaches_engine inflate_finish_def run_defs
        engine_stored_block_def)

text \<open>
  Claim C10, as stated, fails for the error return on a null argument: that return
  writes no flag, so a flag cell the caller did not clear is not 0 after it. Here the
  handle is null and the three flag cells hold 7, 1 and 1.
\<close>

theorem error_flags_counterexample:
  "status (btidy_deflate64_inflate engine_starve None [7, 7, 7] 3 1 [0, 0, 0, 0] 4
             (Some 0) (Some 0) (Some 7) (Some 1) (Some 1)) = Z_STREAM_ERROR \<and>
   Z_STREAM_ERROR \<noteq> Z_OK \<and>
   needs_input (btidy_deflate64_inflate engine_starve None [7, 7, 7] 3 1 [0, 0, 0, 0] 4
                  (Some 0) (Some 0) (Some 7) (Some 1) (Some 1)) = Some 7 \<and>
   needs_output (btidy_deflate64_inflate engine_starve None [7, 7, 7] 3 1 [0, 0, 0, 0] 4
                   (Some 0) (Some 0) (Some 7) (Some 1) (Some 1)) = Some 1 \<and>
   finished (btidy_deflate64_inflate engine_starve None [7, 7, 7] 3 1 [0, 0, 0, 0] 4
               (Some 0) (Some 0) (Some 7) (Some 1) (Some 1)) = Some 1"
  by (simp add: inflate_null_argument zlib_codes)

text \<open>
  Claim C10, amended. When the call returns \<open>Z_DATA_ERROR\<close> because \<open>input_eof\<close> was
  asserted and the engine stopped with \<open>Z_BUF_ERROR\<close>, no overflow and nothing left
  unconsumed, \<open>needs_input\<close> is 1 beside the error status and the other two flags are
  0. On every other return after the engine run with a status other than \<open>Z_OK\<close> all
  three flags are 0. The error return for a null handle or a null out-parameter writes
  no flag: each flag cell keeps what the caller put there.
\<close>

theorem error_flags:
  "(state = None \<or> p1 = None \<or> p2 = None \<or> p3 = None \<or> p4 = None \<or> p5 = None \<longrightarrow>
      (let r = btidy_deflate64_inflate body state inp inp_len input_eof outp outp_len
                 p1 p2 p3 p4 p5
       in status r = Z_STREAM_ERROR \<and>
          needs_input r = p3 \<and> needs_output r = p4 \<and> finished r = p5)) \<and>
   (let e = inflate_engine body (inflate_bind s inp inp_len outp outp_len);
        r = btidy_deflate64_inflate body (Some s) inp inp_len input_eof outp outp_len
              (Some u1) (Some u2) (Some f1) (Some f2) (Some f3);
        truncated = (fst e = Z_BUF_ERROR \<and> output_overflow (snd e) = 0 \<and>
                     avail_in (stream (snd e)) = 0 \<and> input_eof \<noteq> 0)
    in (truncated \<longrightarrow>
          status r = Z_DATA_ERROR \<and> needs_input r = Some 1 \<and> needs_output r = Some 0 \<and>
          finished r = Some 0) \<and>
       (status r \<noteq> Z_OK \<and> \<not> truncated \<longrightarrow>
          needs_input r = Some 0 \<and> needs_output r = Some 0 \<and> finished r = Some 0))"
proof (intro conjI impI)
  assume "state = None \<or> p1 = None \<or> p2 = None \<or> p3 = None \<or> p4 = None \<or> p5 = None"
  then show "let r = btidy_deflate64_inflate body state inp inp_len input_eof outp outp_len
                 p1 p2 p3 p4 p5
       in status r = Z_STREAM_ERROR \<and>
          needs_input r = p3 \<and> needs_output r = p4 \<and> finished r = p5"
    by (simp add: inflate_null_argument)
next
  show "let e = inflate_engine body (inflate_bind s inp inp_len outp outp_len);
        r = btidy_deflate64_inflate body (Some s) inp inp_len input_eof outp outp_len
              (Some u1) (Some u2) (Some f1) (Some f2) (Some f3);
        truncated = (fst e = Z_BUF_ERROR \<and> output_overflow (snd e) = 0 \<and>
                     avail_in (stream (snd e)) = 0 \<and> input_eof \<noteq> 0)
    in (truncated \<longrightarrow>
          status r = Z_DATA_ERROR \<and> needs_input r = Some 1 \<and> needs_output r = Some 0 \<and>
          finished r = Some 0) \<and>
       (status r \<noteq> Z_OK \<and> \<not> truncated \<longrightarrow>
          needs_input r = Some 0 \<and> needs_output r = Some 0 \<and> finished r = Some 0)"
    by (simp add: inflate_reaches_engine inflate_finish_def Let_def used_all_iff zlib_codes)
qed

theorem error_flags_witness:
  "(let r = btidy_deflate64_inflate engine_starve None [7, 7, 7] 3 1 [0, 0, 0, 0] 4
              (Some 0) (Some 0) (Some 0) (Some 0) (Some 0)
    in status r = Z_STREAM_ERROR \<and> needs_input r = Some 0 \<and> needs_output r = Some 0 \<and>
       finished r = Some 0) \<and>
   (let e = inflate_engine engine_starve (inflate_bind ready_state [7, 7, 7] 3 [0, 0, 0, 0] 4);
        r = btidy_deflate64_inflate engine_starve (Some ready_state) [7, 7, 7] 3 1
              [0, 0, 0, 0] 4 (Some 0) (Some 0) (Some 0) (Some 0) (Some 0)
    in fst e = Z_BUF_ERROR \<and> output_overflow (snd e) = 0 \<and> avail_in (stream (snd e)) = 0 \<and>
       status r = Z_DATA_ERROR \<and> needs_input r = Some 1 \<and> needs_output r = Some 0 \<and>
       finished r = Some 0) \<and>
   (let e = inflate_engine (engine_leave Z_DATA_ERROR (Some ''invalid block type'') 2)
              (inflate_bind ready_state [7, 7, 7] 3 [0, 0, 0, 0] 4);
        r = btidy_deflate64_inflate (engine_leave Z_DATA_ERROR (Some ''invalid block type'') 2)
              (Some ready_state) [7, 7, 7] 3 1
              [0, 0, 0, 0] 4 (Some 0) (Some 0) (Some 0) (Some 0) (Some 0)
    in fst e \<noteq> Z_BUF_ERROR \<and> status r = Z_DATA_ERROR \<and> status r \<noteq> Z_OK \<and>
       needs_input r = Some 0 \<and> needs_output r = Some 0 \<and> finished r = Some 0)"
  using error_flags [where body = engine_starve and state = None and s = ready_state
      and inp = "[7, 7, 7]" and inp_len = 3 and input_eof = 1 and outp = "[0, 0, 0, 0]"
      and outp_len = 4 and ?p1.0 = "Some 0" and ?p2.0 = "Some 0" and ?p3.0 = "Some 0"
      and ?p4.0 = "Some 0" and ?p5.0 = "Some 0"
      and ?u1.0 = 0 and ?u2.0 = 0 and ?f1.0 = 0 and ?f2.0 = 0 and ?f3.0 = 0]
    error_flags [where body = "engine_leave Z_DATA_ERROR (Some ''invalid block type'') 2"
      and state = None and s = ready_state
      and inp = "[7, 7, 7]" and inp_len = 3 and input_eof = 1 and outp = "[0, 0, 0, 0]"
      and outp_len = 4 and ?p1.0 = "Some 0" and ?p2.0 = "Some 0" and ?p3.0 = "Some 0"
      and ?p4.0 = "Some 0" and ?p5.0 = "Some 0"
      and ?u1.0 = 0 and ?u2.0 = 0 and ?f1.0 = 0 and ?f2.0 = 0 and ?f3.0 = 0]
  by (simp add: inflate_reaches_engine inflate_null_argument inflate_finish_def run_defs)

lemma bind_facts:
  "bounded_out (inflate_bind s inp inp_len outp outp_len)"
  "output_len (inflate_bind s inp inp_len outp outp_len) = outp_len"
  "input_len (inflate_bind s inp inp_len outp outp_len) = inp_len"
  "unat (avail_in (stream (inflate_bind s inp inp_len outp outp_len))) \<le> unat inp_len"
  "engine_state (stream (inflate_bind s inp inp_len outp outp_len)) = engine_state (stream s)"
     apply (simp_all add: bounded_out_def inflate_bind_def unat_UINT_MAX_uInt)
  apply (simp add: word_less_nat_alt unat_UINT_MAX_size_t unat_ucast_size_t_uInt)
  done





section \<open>Handles that were never initialized\<close>

lemma inflate_unbound:
  assumes "engine_state (stream s) = None"
  shows "status (btidy_deflate64_inflate body (Some s) inp inp_len input_eof outp outp_len
                   p1 p2 p3 p4 p5) = Z_STREAM_ERROR"
proof (cases "p1 = None \<or> p2 = None \<or> p3 = None \<or> p4 = None \<or> p5 = None")
  case True
  then show ?thesis by (simp add: inflate_null_argument)
next
  case False
  then obtain u1 u2 f1 f2 f3 where
    p: "p1 = Some u1" "p2 = Some u2" "p3 = Some f1" "p4 = Some f2" "p5 = Some f3"
    by auto
  have "inflate_engine body (inflate_bind s inp inp_len outp outp_len) =
          (Z_STREAM_ERROR, inflate_bind s inp inp_len outp outp_len)"
    using assms by (simp add: inflate_engine_def inflateBack9_def bind_facts)
  then show ?thesis
    by (simp add: p inflate_reaches_engine inflate_finish_def Let_def zlib_codes)
qed

lemma init_failed_unbound:
  assumes "btidy_deflate64_init choice outcome h (Some zeroed_state) = (ret, h', st)"
      and "ret \<noteq> Z_OK"
  shows "\<exists>s. st = Some s \<and> engine_state (stream s) = None \<and> initialized s = 0 \<and>
             window s = None"
  using assms
  by (auto simp: btidy_deflate64_init_def malloc_def inflateBack9Init_def zeroed_state_def
        Let_def split: option.splits if_splits)

text \<open>
  Claim C7. \<open>btidy_deflate64_inflate\<close> returns \<open>Z_STREAM_ERROR\<close> for a null handle
  and when any of the five out-parameters is null. It returns \<open>Z_STREAM_ERROR\<close> as
  well on a handle that was never successfully initialized: one whose stream has no
  engine context, which holds of a handle fresh from \<open>btidy_deflate64_new\<close> and of one
  on which \<open>btidy_deflate64_init\<close> failed. The driver itself only checks for null
  arguments; on the un-initialized handle the status is the engine's.
\<close>

theorem uninitialized_handle_rejected:
  "(state = None \<or> p1 = None \<or> p2 = None \<or> p3 = None \<or> p4 = None \<or> p5 = None \<longrightarrow>
      status (btidy_deflate64_inflate body state inp inp_len input_eof outp outp_len
                p1 p2 p3 p4 p5) = Z_STREAM_ERROR) \<and>
   (engine_state (stream s) = None \<longrightarrow>
      status (btidy_deflate64_inflate body (Some s) inp inp_len input_eof outp outp_len
                p1 p2 p3 p4 p5) = Z_STREAM_ERROR) \<and>
   status (btidy_deflate64_inflate body (btidy_deflate64_new calloc_ok) inp inp_len input_eof
             outp outp_len p1 p2 p3 p4 p5) = Z_STREAM_ERROR \<and>
   (fst (btidy_deflate64_init choice outcome h (btidy_deflate64_new calloc_ok)) \<noteq> Z_OK \<longrightarrow>
      status (btidy_deflate64_inflate body
                (snd (snd (btidy_deflate64_init choice outcome h (btidy_deflate64_new calloc_ok))))
                inp inp_len input_eof outp outp_len p1 p2 p3 p4 p5) = Z_STREAM_ERROR)"
proof (intro conjI impI)
  assume "state = None \<or> p1 = None \<or> p2 = None \<or> p3 = None \<or> p4 = None \<or> p5 = None"
  then show "status (btidy_deflate64_inflate body state inp inp_len input_eof outp outp_len
                p1 p2 p3 p4 p5) = Z_STREAM_ERROR"
    by (simp add: inflate_null_argument)
next
  assume "engine_state (stream s) = None"
  then show "status (btidy_deflate64_inflate body (Some s) inp inp_len input_eof outp outp_len
                p1 p2 p3 p4 p5) = Z_STREAM_ERROR"
    by (rule inflate_unbound)
next
  show "status (btidy_deflate64_inflate body (btidy_deflate64_new calloc_ok) inp inp_len
          input_eof outp outp_len p1 p2 p3 p4 p5) = Z_STREAM_ERROR"
  proof (cases calloc_ok)
    case True
    have "engine_state (stream zeroed_state) = None"
      by (simp add: zeroed_state_def)
    then show ?thesis
      by (simp add: True btidy_deflate64_new_def inflate_unbound)
  next
    case False
    then show ?thesis
      by (simp add: btidy_deflate64_new_def inflate_null_argument)
  qed
next
  let ?i = "btidy_deflate64_init choice outcome h (btidy_deflate64_new calloc_ok)"
  assume fail: "fst ?i \<noteq> Z_OK"
  show "status (btidy_deflate64_inflate body (snd (snd ?i))
                inp inp_len input_eof outp outp_len p1 p2 p3 p4 p5) = Z_STREAM_ERROR"
  proof (cases calloc_ok)
    case True
    then have "btidy_deflate64_init choice outcome h (Some zeroed_state) =
                 (fst ?i, fst (snd ?i), snd (snd ?i))"
      by (simp add: btidy_deflate64_new_def)
    from init_failed_unbound [OF this fail]
    obtain s where "snd (snd ?i) = Some s" "engine_state (stream s) = None"
      by blast
    then show ?thesis
      by (simp add: inflate_unbound)
  next
    case False
    then have "snd (snd ?i) = None"
      by (simp add: btidy_deflate64_new_def btidy_deflate64_init_def)
    then show ?thesis
      by (simp add: inflate_null_argument)
  qed
qed

theorem uninitialized_handle_rejected_witness:
  "status (btidy_deflate64_inflate (engine_emit [1, 2]) None [7, 7, 7] 3 0 [0, 0, 0, 0] 4
             (Some 0) (Some 0) (Some 0) (Some 0) (Some 0)) = Z_STREAM_ERROR \<and>
   status (btidy_deflate64_inflate (engine_emit [1, 2]) (Some ready_state) [7, 7, 7] 3 0
             [0, 0, 0, 0] 4 (Some 0) (Some 0) None (Some 0) (Some 0)) = Z_STREAM_ERROR \<and>
   engine_state (stream zeroed_state) = None \<and>
   btidy_deflate64_new True = Some zeroed_state \<and>
   status (btidy_deflate64_inflate (engine_emit [1, 2]) (Some zeroed_state) [7, 7, 7] 3 0
             [0, 0, 0, 0] 4 (Some 0) (Some 0) (Some 0) (Some 0) (Some 0)) = Z_STREAM_ERROR \<and>
   fst (btidy_deflate64_init (Some 0) Z_MEM_ERROR (\<lambda>a. None) (btidy_deflate64_new True))
     \<noteq> Z_OK \<and>
   status (btidy_deflate64_inflate (engine_emit [1, 2])
             (snd (snd (btidy_deflate64_init (Some 0) Z_MEM_ERROR (\<lambda>a. None)
                          (btidy_deflate64_new True))))
             [7, 7, 7] 3 0 [0, 0, 0, 0] 4 (Some 0) (Some 0) (Some 0) (Some 0) (Some 0))
     = Z_STREAM_ERROR"
  using uninitialized_handle_rejected [where body = "engine_emit [1, 2]" and state = None
      and s = zeroed_state and calloc_ok = True and choice = "Some 0"
      and outcome = Z_MEM_ERROR and h = "\<lambda>a. None"
      and inp = "[7, 7, 7]" and inp_len = 3 and input_eof = 0 and outp = "[0, 0, 0, 0]"
      and outp_len = 4 and ?p1.0 = "Some 0" and ?p2.0 = "Some 0" and ?p3.0 = "Some 0"
      and ?p4.0 = "Some 0" and ?p5.0 = "Some 0"]
    uninitialized_handle_rejected [where body = "engine_emit [1, 2]"
      and state = "Some ready_state"
      and s = zeroed_state and calloc_ok = True and choice = "Some 0"
      and outcome = Z_MEM_ERROR and h = "\<lambda>a. None"
      and inp = "[7, 7, 7]" and inp_len = 3 and input_eof = 0 and outp = "[0, 0, 0, 0]"
      and outp_len = 4 and ?p1.0 = "Some 0" and ?p2.0 = "Some 0" and ?p3.0 = None
      and ?p4.0 = "Some 0" and ?p5.0 = "Some 0"]
  by (simp add: btidy_deflate64_new_def btidy_deflate64_init_def malloc_def free_block_def
        inflateBack9Init_def inflate_null_argument inflate_reaches_engine inflate_finish_def
        run_defs)

section \<open>Initialization\<close>

text \<open>
  Claim C8. \<open>btidy_deflate64_init\<close> on a fresh (zeroed) handle, for every answer of
  \<open>malloc\<close> and of the engine: the handle is marked initialized exactly when the call
  returns \<open>Z_OK\<close>, and its window is non-null exactly when it is marked initialized; a
  non-null window is a live block of 65536 bytes. When \<open>malloc\<close> fails the call
  returns \<open>Z_MEM_ERROR\<close> and the heap is as before. When the engine fails to bind, the
  call returns the engine's status (\<open>Z_MEM_ERROR\<close> when that is what the engine
  reports) and the window block is freed again.
\<close>

theorem init_window_iff_initialized:
  "let res = btidy_deflate64_init choice outcome h (Some zeroed_state);
       ret = fst res; h' = fst (snd res)
   in \<exists>s'. snd (snd res) = Some s' \<and>
        (initialized s' \<noteq> 0 \<longleftrightarrow> ret = Z_OK) \<and>
        (window s' \<noteq> None \<longleftrightarrow> initialized s' \<noteq> 0) \<and>
        (\<forall>a. window s' = Some a \<longrightarrow> h' a = Some 65536 \<and> choice = Some a) \<and>
        (choice = None \<longrightarrow> ret = Z_MEM_ERROR \<and> h' = h) \<and>
        (\<forall>a. choice = Some a \<and> outcome \<noteq> Z_OK \<longrightarrow>
               ret = outcome \<and> h' a = None \<and> (\<forall>b. b \<noteq> a \<longrightarrow> h' b = h b)) \<and>
        (\<forall>a. choice = Some a \<and> outcome = Z_OK \<longrightarrow>
               ret = Z_OK \<and> initialized s' = 1 \<and> window s' = Some a \<and>
               engine_state (stream s') = Some a)"
  by (cases choice)
    (simp_all add: btidy_deflate64_init_def malloc_def free_block_def inflateBack9Init_def
       zeroed_state_def Let_def zlib_codes)

theorem init_window_iff_initialized_witness:
  "btidy_deflate64_init (Some 0) Z_OK (\<lambda>a. None) (Some zeroed_state) =
     (Z_OK, (\<lambda>a. None)(0 \<mapsto> 65536), Some ready_state) \<and>
   btidy_deflate64_init None Z_OK (\<lambda>a. None) (Some zeroed_state) =
     (Z_MEM_ERROR, (\<lambda>a. None), Some zeroed_state) \<and>
   Z_MEM_ERROR \<noteq> Z_OK \<and>
   btidy_deflate64_init (Some 0) Z_MEM_ERROR (\<lambda>a. None) (Some zeroed_state) =
     (Z_MEM_ERROR, (\<lambda>a. None),
      Some (zeroed_state\<lparr>stream := (stream zeroed_state)\<lparr>zalloc := Hook_btidy_zalloc,
                                                          zfree := Hook_btidy_zfree\<rparr>\<rparr>))"
  using init_window_iff_initialized [of "Some 0" Z_OK "\<lambda>a. None"]
    init_window_iff_initialized [of None Z_OK "\<lambda>a. None"]
    init_window_iff_initialized [of "Some 0" Z_MEM_ERROR "\<lambda>a. None"]
  by (simp add: btidy_deflate64_init_def malloc_def free_block_def inflateBack9Init_def
        ready_state_def zeroed_state_def Let_def zlib_codes)

section \<open>The error resolver\<close>

text \<open>
  Claim C9, as stated, fails: a handle whose stream carries the empty text gets the
  empty text back, for the resolver tests the text pointer for null only.
\<close>

theorem error_message_empty_counterexample:
  "btidy_deflate64_error_message
     (Some (ready_state\<lparr>stream := (stream ready_state)\<lparr>msg := Some ''''\<rparr>\<rparr>)) Z_DATA_ERROR
   = Some ''''"
  by (simp add: btidy_deflate64_error_message_def)

text \<open>
  Claim C9, amended. For every handle argument, null included, and every status code,
  \<open>btidy_deflate64_error_message\<close> returns a non-null string. It is the
  engine-provided text, as it stands, when the handle is non-null and carries one;
  otherwise it is the fixed, non-empty string of the status category (corrupt stream,
  out of memory, invalid state, insufficient buffer), or the generic unknown-error text
  for any other code. The result is empty only when the handle carries an empty text.
\<close>

theorem error_message_text:
  "\<exists>t. btidy_deflate64_error_message state code = Some t \<and>
        (\<forall>s m. state = Some s \<and> msg (stream s) = Some m \<longrightarrow> t = m) \<and>
        (state = None \<or> (\<exists>s. state = Some s \<and> msg (stream s) = None) \<longrightarrow>
           t \<noteq> [] \<and>
           (code = Z_DATA_ERROR \<longrightarrow> t = ''invalid deflate64 stream'') \<and>
           (code = Z_MEM_ERROR \<longrightarrow> t = ''insufficient memory'') \<and>
           (code = Z_STREAM_ERROR \<longrightarrow> t = ''invalid stream state'') \<and>
           (code = Z_BUF_ERROR \<longrightarrow> t = ''insufficient input or output buffer'') \<and>
           (code \<notin> {Z_DATA_ERROR, Z_MEM_ERROR, Z_STREAM_ERROR, Z_BUF_ERROR} \<longrightarrow>
              t = ''unknown deflate64 error'')) \<and>
        (t = [] \<longrightarrow> (\<exists>s. state = Some s \<and> msg (stream s) = Some []))"
  by (auto simp: btidy_deflate64_error_message_def error_message_switch_def zlib_codes
        split: option.splits)

theorem error_message_text_witness:
  "btidy_deflate64_error_message None Z_MEM_ERROR = Some ''insufficient memory'' \<and>
   btidy_deflate64_error_message None 7 = Some ''unknown deflate64 error'' \<and>
   btidy_deflate64_error_message (Some ready_state) Z_DATA_ERROR =
     Some ''invalid deflate64 stream'' \<and>
   btidy_deflate64_error_message (Some ready_state) Z_STREAM_ERROR =
     Some ''invalid stream state'' \<and>
   btidy_deflate64_error_message (Some ready_state) Z_BUF_ERROR =
     Some ''insufficient input or output buffer'' \<and>
   btidy_deflate64_error_message
     (Some (ready_state\<lparr>stream := (stream ready_state)\<lparr>msg := Some ''invalid block type''\<rparr>\<rparr>))
     Z_BUF_ERROR = Some ''invalid block type''"
  using error_message_text [of None Z_MEM_ERROR] error_message_text [of None 7]
    error_message_text [of "Some ready_state" Z_DATA_ERROR]
    error_message_text [of "Some ready_state" Z_STREAM_ERROR]
    error_message_text [of "Some ready_state" Z_BUF_ERROR]
    error_message_text
      [of "Some (ready_state\<lparr>stream := (stream ready_state)
                                \<lparr>msg := Some ''invalid block type''\<rparr>\<rparr>)" Z_BUF_ERROR]
  by (simp add: btidy_deflate64_error_message_def error_message_switch_def ready_state_def
        zeroed_state_def zlib_codes)

end
